theory Spec2Isabelle
  imports Complex_Main "HOL-Library.AList"
begin

section \<open>Data model of \<^verbatim>\<open>ocr_utils.py\<close>\<close>

text \<open>
  The module wraps an external OCR engine. The engine, the image library and the file
  system are collaborators of the code: they appear here as parameters (an engine is a
  function from the image path to what its \<^verbatim>\<open>ocr\<close> method returns or raises).
  Python floats are idealised as real numbers: rounding error, infinities and NaN are
  outside the model. The collaborators are fixed during a query: two calls on the same
  input see the same file system and the same answers of the engines.

  The raw output of an engine is typed as the engine documents it: a polygon is a list
  of points \<^verbatim>\<open>[x, y]\<close>, a text is a \<^verbatim>\<open>str\<close>, a confidence is a number. Within
  these types every shape that the code tests for is a value of the model: a missing or
  empty result, a missing or empty first page, a line of fewer than two fields, text
  information with or without a confidence, and an empty polygon, on which numpy raises.

  A Python \<^verbatim>\<open>str\<close> holding recognised text is a list of Unicode code points, so that
  \<^verbatim>\<open>str.strip\<close> can follow Python's table of whitespace characters. Language codes,
  paths and dictionary keys are plain strings.
\<close>

type_synonym codepoint = nat
type_synonym pystr = "codepoint list"

text \<open>A polygon point \<^verbatim>\<open>[x, y]\<close>.\<close>

type_synonym point = "real \<times> real"

text \<open>A number as the engine may report it: \<^verbatim>\<open>float(confidence)\<close> accepts both.\<close>

datatype pynum = IntNum int | FloatNum real

fun py_float :: "pynum \<Rightarrow> real" where
  "py_float (IntNum i) = of_int i"
| "py_float (FloatNum x) = x"

text \<open>
  The second field of a raw line: a tuple of at least two components
  \<^verbatim>\<open>(text, confidence, ...)\<close>, or a bare text value.
\<close>

datatype text_info = TextConf pystr pynum | BareText pystr

text \<open>
  A raw line is a sequence of fields. The code reads field 0 as the polygon and field 1
  as the text information, and ignores any further field; the constructors are the three
  shapes that the test \<^verbatim>\<open>len(line) >= 2\<close> tells apart.
\<close>

datatype raw_line =
    NoFields
  | OneField "point list"
  | Fields "point list" text_info

fun line_len :: "raw_line \<Rightarrow> nat" where
  "line_len NoFields = 0"
| "line_len (OneField b) = 1"
| "line_len (Fields b t) = 2"

text \<open>
  What an engine returns: \<^verbatim>\<open>None\<close> or a list of pages, each page \<^verbatim>\<open>None\<close> or a
  list of raw lines.
\<close>

type_synonym page = "raw_line list option"
type_synonym ocr_result = "page list option"

text \<open>
  Exceptions that a \<^verbatim>\<open>try\<close> block of the module catches: \<open>External\<close> is any
  exception raised by a collaborator (the engine, its constructor, the image library).
\<close>

datatype exc =
    External string
  | KeyError string
  | IndexError

text \<open>The dictionary that \<^verbatim>\<open>_process_ocr_results\<close> builds for one detection.\<close>

record detection =
  r_text :: pystr
  r_confidence :: real
  r_language :: string
  r_bbox :: "point list"
  r_center :: "real \<times> real"
  r_dimensions :: "real \<times> real"

section \<open>The normalizer: \<^verbatim>\<open>_process_ocr_results\<close>\<close>

text \<open>
  The body of the \<^verbatim>\<open>for line in ocr_result[0]\<close> loop for one line: \<open>None\<close> when the
  line is skipped, a record otherwise. On an empty polygon \<^verbatim>\<open>np.array(bbox)\<close> is
  one-dimensional and \<^verbatim>\<open>bbox_array[:, 0]\<close> raises \<^verbatim>\<open>IndexError\<close>.
\<close>

definition process_line :: "string \<Rightarrow> raw_line \<Rightarrow> exc + detection option" where
  "process_line language line =
     (if line_len line \<ge> 2 then
        (case line of
           Fields bbox text_info \<Rightarrow>
             (let (text, confidence) =
                    (case text_info of
                       TextConf t c \<Rightarrow> (t, py_float c)
                     | BareText t \<Rightarrow> (t, 1))
              in if bbox = [] then Inl IndexError
                 else
                   (let xs = map fst bbox;
                        ys = map snd bbox;
                        center_x = sum_list xs / real (length xs);
                        center_y = sum_list ys / real (length ys);
                        width = Max (set xs) - Min (set xs);
                        height = Max (set ys) - Min (set ys)
                    in Inr (Some \<lparr>r_text = text,
                                    r_confidence = confidence,
                                    r_language = language,
                                    r_bbox = bbox,
                                    r_center = (center_x, center_y),
                                    r_dimensions = (width, height)\<rparr>)))
         | _ \<Rightarrow> Inr None)
      else Inr None)"

text \<open>The loop: records are appended in order; an exception leaves the function.\<close>

fun process_lines :: "string \<Rightarrow> raw_line list \<Rightarrow> detection list \<Rightarrow> exc + detection list" where
  "process_lines language [] processed_results = Inr processed_results"
| "process_lines language (line # rest) processed_results =
     (case process_line language line of
        Inl e \<Rightarrow> Inl e
      | Inr None \<Rightarrow> process_lines language rest processed_results
      | Inr (Some r) \<Rightarrow> process_lines language rest (processed_results @ [r]))"

text \<open>
  \<^verbatim>\<open>if not ocr_result or not ocr_result[0]: return processed_results\<close>: \<^verbatim>\<open>None\<close> and
  the empty list are both falsy.
\<close>

definition process_ocr_results :: "ocr_result \<Rightarrow> string \<Rightarrow> exc + detection list" where
  "process_ocr_results ocr_result language =
     (case ocr_result of
        None \<Rightarrow> Inr []
      | Some [] \<Rightarrow> Inr []
      | Some (first # others) \<Rightarrow>
          (case first of
             None \<Rightarrow> Inr []
           | Some [] \<Rightarrow> Inr []
           | Some lines \<Rightarrow> process_lines language lines []))"

section \<open>The processor and its environment\<close>

text \<open>
  An engine handle is its \<^verbatim>\<open>ocr(image_path, cls=True)\<close> method. The registry
  \<^verbatim>\<open>self.ocr_models\<close> is a dictionary in insertion order.
\<close>

type_synonym engine = "string \<Rightarrow> exc + ocr_result"

record processor =
  languages :: "string list"
  use_gpu :: bool
  ocr_models :: "(string \<times> engine) list"

text \<open>
  The environment of a call: \<^verbatim>\<open>os.path.exists\<close>, what \<^verbatim>\<open>Image.open\<close> followed by
  \<^verbatim>\<open>verify\<close> raises (if anything), and the order in which \<^verbatim>\<open>list(set(...))\<close>
  enumerates the strings inserted in a given order (Python leaves that order open).
\<close>

record environment =
  path_exists :: "string \<Rightarrow> bool"
  image_verify :: "string \<Rightarrow> exc option"
  set_to_list :: "string list \<Rightarrow> string list"


text \<open>What the code does that a caller can observe besides the result.\<close>

datatype event =
    Info_initializing string
  | Info_all_initialized
  | Error_initialize exc
  | Info_processing string
  | Engine_call string string
  | Error_processing string exc

text \<open>What \<^verbatim>\<open>process_image\<close> raises; the two \<^verbatim>\<open>ValueError\<close>s differ in their message.\<close>

datatype error =
    FileNotFoundError string
  | ValueError_invalid_image string
  | ValueError_not_initialized string "string list"

subsection \<open>Construction\<close>

text \<open>
  \<^verbatim>\<open>_initialize_models\<close>, with the constructor \<^verbatim>\<open>PaddleOCR\<close> as the parameter
  \<open>paddle\<close> (language, GPU flag). An exception is logged and raised again.
\<close>

fun initialize_loop ::
  "(string \<Rightarrow> bool \<Rightarrow> exc + engine) \<Rightarrow> bool \<Rightarrow> string list \<Rightarrow> (string \<times> engine) list \<Rightarrow>
   event list \<Rightarrow> event list \<times> (exc + (string \<times> engine) list)" where
  "initialize_loop paddle gpu [] models evs = (evs @ [Info_all_initialized], Inr models)"
| "initialize_loop paddle gpu (lang # rest) models evs =
     (case paddle lang gpu of
        Inl e \<Rightarrow> (evs @ [Info_initializing lang, Error_initialize e], Inl e)
      | Inr model \<Rightarrow>
          initialize_loop paddle gpu rest (AList.update lang model models)
            (evs @ [Info_initializing lang]))"

definition init ::
  "(string \<Rightarrow> bool \<Rightarrow> exc + engine) \<Rightarrow> string list option \<Rightarrow> bool \<Rightarrow>
   event list \<times> (exc + processor)" where
  "init paddle languages_arg gpu =
     (let langs = (case languages_arg of None \<Rightarrow> [''en'', ''hi''] | Some ls \<Rightarrow> ls)
      in case initialize_loop paddle gpu langs [] [] of
           (evs, Inl e) \<Rightarrow> (evs, Inl e)
         | (evs, Inr models) \<Rightarrow>
             (evs, Inr \<lparr>languages = langs, use_gpu = gpu, ocr_models = models\<rparr>))"

subsection \<open>\<^verbatim>\<open>_is_valid_image\<close>\<close>

definition is_valid_image :: "environment \<Rightarrow> string \<Rightarrow> bool" where
  "is_valid_image env image_path =
     (case image_verify env image_path of None \<Rightarrow> True | Some e \<Rightarrow> False)"

section \<open>The aggregator: \<^verbatim>\<open>process_image\<close>\<close>

text \<open>
  The body of the \<^verbatim>\<open>try\<close> block for one language: the events it causes and either
  the exception that reaches the \<^verbatim>\<open>except\<close> clause or the normalized records.
\<close>

definition run_language ::
  "processor \<Rightarrow> string \<Rightarrow> string \<Rightarrow> event list \<times> (exc + detection list)" where
  "run_language self image_path lang =
     (case map_of (ocr_models self) lang of
        None \<Rightarrow> ([Info_processing lang], Inl (KeyError lang))
      | Some model \<Rightarrow>
          (case model image_path of
             Inl e \<Rightarrow> ([Info_processing lang, Engine_call lang image_path], Inl e)
           | Inr ocr_result \<Rightarrow>
               ([Info_processing lang, Engine_call lang image_path],
                process_ocr_results ocr_result lang)))"

fun language_loop ::
  "processor \<Rightarrow> string \<Rightarrow> string list \<Rightarrow> detection list \<Rightarrow> event list \<Rightarrow>
   event list \<times> detection list" where
  "language_loop self image_path [] results evs = (evs, results)"
| "language_loop self image_path (lang # rest) results evs =
     (case run_language self image_path lang of
        (es, Inr processed_results) \<Rightarrow>
          language_loop self image_path rest (results @ processed_results) (evs @ es)
      | (es, Inl e) \<Rightarrow>
          language_loop self image_path rest results (evs @ es @ [Error_processing lang e]))"

text \<open>\<^verbatim>\<open>if language:\<close> is false for \<^verbatim>\<open>None\<close> and for the empty string.\<close>

fun truthy :: "string option \<Rightarrow> bool" where
  "truthy None = False"
| "truthy (Some l) = (l \<noteq> [])"

definition process_image ::
  "processor \<Rightarrow> environment \<Rightarrow> string \<Rightarrow> string option \<Rightarrow>
   event list \<times> (error + detection list)" where
  "process_image self env image_path language =
     (if \<not> path_exists env image_path then ([], Inl (FileNotFoundError image_path))
      else if \<not> is_valid_image env image_path then
        ([], Inl (ValueError_invalid_image image_path))
      else if truthy language then
        (if map_of (ocr_models self) (the language) = None then
           ([], Inl (ValueError_not_initialized (the language) (map fst (ocr_models self))))
         else
           (case language_loop self image_path [the language] [] [] of
              (evs, results) \<Rightarrow> (evs, Inr results)))
      else
        (case language_loop self image_path (languages self) [] [] of
           (evs, results) \<Rightarrow> (evs, Inr results)))"

section \<open>The query operations\<close>

subsection \<open>\<^verbatim>\<open>extract_text_only\<close>\<close>

text \<open>The code points for which \<^verbatim>\<open>str.isspace\<close> holds.\<close>

definition py_isspace :: "codepoint \<Rightarrow> bool" where
  "py_isspace c =
     ((9 \<le> c \<and> c \<le> 13) \<or> (28 \<le> c \<and> c \<le> 32) \<or> c = 133 \<or> c = 160 \<or> c = 5760 \<or>
      (8192 \<le> c \<and> c \<le> 8202) \<or> c = 8232 \<or> c = 8233 \<or> c = 8239 \<or> c = 8287 \<or>
      c = 12288)"

definition strip :: "pystr \<Rightarrow> pystr" where
  "strip s = rev (dropWhile py_isspace (rev (dropWhile py_isspace s)))"

definition texts_of :: "detection list \<Rightarrow> pystr list" where
  "texts_of results = map r_text (filter (\<lambda>result. strip (r_text result) \<noteq> []) results)"

definition extract_text_only ::
  "processor \<Rightarrow> environment \<Rightarrow> string \<Rightarrow> string option \<Rightarrow>
   event list \<times> (error + pystr list)" where
  "extract_text_only self env image_path language =
     (case process_image self env image_path language of
        (evs, Inl e) \<Rightarrow> (evs, Inl e)
      | (evs, Inr results) \<Rightarrow> (evs, Inr (texts_of results)))"

subsection \<open>\<^verbatim>\<open>get_detailed_results\<close>\<close>

text \<open>The values of the returned dictionary, which is kept in insertion order.\<close>

datatype pyval =
    PyInt int
  | PyFloat real
  | PyStr string
  | PyStrList "string list"
  | PyRecords "detection list"
  | PyGroups "(string \<times> detection list) list"

type_synonym pydict = "(string \<times> pyval) list"

text \<open>
  \<^verbatim>\<open>round(x, 3)\<close> and the format \<^verbatim>\<open>{x:.1%}\<close> round to the nearest value, a tie to
  the even neighbour.
\<close>

definition round_half_even :: "real \<Rightarrow> int" where
  "round_half_even y =
     (let f = \<lfloor>y\<rfloor>; d = y - of_int f
      in if d < 1 / 2 then f
         else if 1 / 2 < d then f + 1
         else if even f then f else f + 1)"

definition py_round3 :: "real \<Rightarrow> real" where
  "py_round3 x = of_int (round_half_even (x * 1000)) / 1000"

fun str_nat :: "nat \<Rightarrow> string" where
  "str_nat n =
     (if n < 10 then [char_of (48 + n)]
      else str_nat (n div 10) @ [char_of (48 + n mod 10)])"

declare str_nat.simps [simp del]

definition format_percent1 :: "real \<Rightarrow> string" where
  "format_percent1 x =
     (let n = nat (round_half_even (\<bar>x\<bar> * 1000))
      in (if x < 0 then ''-'' else []) @ str_nat (n div 10) @ ''.'' @ str_nat (n mod 10) @ ''%'')"

text \<open>
  The grouping loop: a language seen for the first time gets a new key with an empty
  list, then the record is appended to the list under its language.
\<close>

fun group_loop ::
  "detection list \<Rightarrow> (string \<times> detection list) list \<Rightarrow> (string \<times> detection list) list" where
  "group_loop [] results_by_language = results_by_language"
| "group_loop (result # rest) results_by_language =
     (let lang = r_language result;
          d1 = (if map_of results_by_language lang = None
                then AList.update lang [] results_by_language
                else results_by_language);
          d2 = AList.map_entry lang (\<lambda>rs. rs @ [result]) d1
      in group_loop rest d2)"

definition detailed :: "environment \<Rightarrow> detection list \<Rightarrow> pydict" where
  "detailed env results =
     (if results = [] then
        [(''text_count'', PyInt 0),
         (''languages_detected'', PyStrList []),
         (''average_confidence'', PyFloat 0),
         (''results'', PyRecords []),
         (''summary'', PyStr ''No text detected'')]
      else
        (let text_count = length results;
             languages_detected = set_to_list env (map r_language results);
             confidences = map r_confidence results;
             average_confidence =
               (if confidences \<noteq> [] then sum_list confidences / real (length confidences)
                else 0);
             results_by_language = group_loop results []
         in [(''text_count'', PyInt (int text_count)),
             (''languages_detected'', PyStrList languages_detected),
             (''average_confidence'', PyFloat (py_round3 average_confidence)),
             (''results'', PyRecords results),
             (''results_by_language'', PyGroups results_by_language),
             (''summary'',
              PyStr (''Detected '' @ str_nat text_count @ '' text elements in '' @
                     str_nat (length languages_detected) @ '' languages with '' @
                     format_percent1 average_confidence @ '' average confidence''))]))"

definition get_detailed_results ::
  "processor \<Rightarrow> environment \<Rightarrow> string \<Rightarrow> string option \<Rightarrow>
   event list \<times> (error + pydict)" where
  "get_detailed_results self env image_path language =
     (case process_image self env image_path language of
        (evs, Inl e) \<Rightarrow> (evs, Inl e)
      | (evs, Inr results) \<Rightarrow> (evs, Inr (detailed env results)))"

section \<open>Notions used to state the properties\<close>



text \<open>
  What one language contributes to a query: its normalized records when the registry
  has the language, its engine returns and the normalizer returns; nothing otherwise.
\<close>

definition contribution :: "processor \<Rightarrow> string \<Rightarrow> string \<Rightarrow> detection list" where
  "contribution self image_path lang =
     (case map_of (ocr_models self) lang of
        None \<Rightarrow> []
      | Some model \<Rightarrow>
          (case model image_path of
             Inl e \<Rightarrow> []
           | Inr ocr_result \<Rightarrow>
               (case process_ocr_results ocr_result lang of Inl e \<Rightarrow> [] | Inr rs \<Rightarrow> rs)))"

text \<open>The value \<^verbatim>\<open>d['results']\<close> of a returned dictionary.\<close>

definition dict_results :: "pydict \<Rightarrow> detection list" where
  "dict_results d = (case map_of d ''results'' of Some (PyRecords rs) \<Rightarrow> rs | _ \<Rightarrow> [])"

section \<open>Concrete inputs\<close>

definition example_box :: "point list" where
  "example_box = [(0, 0), (4, 0), (4, 2), (0, 2)]"

text \<open>The text \<^verbatim>\<open>Hello\<close> as code points.\<close>

definition hello :: pystr where
  "hello = [72, 101, 108, 108, 111]"

definition example_record :: "string \<Rightarrow> real \<Rightarrow> detection" where
  "example_record lang c =
     \<lparr>r_text = hello, r_confidence = c, r_language = lang, r_bbox = example_box,
      r_center = (2, 1), r_dimensions = (4, 2)\<rparr>"

text \<open>An engine that finds \<^verbatim>\<open>Hello\<close> with the given confidence on every image.\<close>

definition engine_hello :: "real \<Rightarrow> engine" where
  "engine_hello c image_path =
     Inr (Some [Some [Fields example_box (TextConf hello (FloatNum c))]])"

text \<open>An engine that raises, and one that finds no text (the engine's \<^verbatim>\<open>[None]\<close>).\<close>

definition engine_failing :: engine where
  "engine_failing image_path = Inl (External ''inference failed'')"

definition engine_blank :: engine where
  "engine_blank image_path = Inr (Some [None])"

definition example_processor :: "engine \<Rightarrow> engine \<Rightarrow> processor" where
  "example_processor en hi =
     \<lparr>languages = [''en'', ''hi''], use_gpu = False, ocr_models = [(''en'', en), (''hi'', hi)]\<rparr>"

definition english_processor :: "engine \<Rightarrow> processor" where
  "english_processor en =
     \<lparr>languages = [''en''], use_gpu = False, ocr_models = [(''en'', en)]\<rparr>"

text \<open>
  A file system with the image \<^verbatim>\<open>sample.jpg\<close> and the text file \<^verbatim>\<open>notes.txt\<close>, and
  nothing else.
\<close>

definition example_env :: environment where
  "example_env =
     \<lparr>path_exists = (\<lambda>p. p = ''sample.jpg'' \<or> p = ''notes.txt''),
      image_verify =
        (\<lambda>p. if p = ''sample.jpg'' then None else Some (External ''cannot identify image file'')),
      set_to_list = remdups\<rparr>"

section \<open>Properties of the normalizer\<close>



text \<open>The accumulator of the loop is a prefix of what it returns.\<close>

lemma process_lines_acc:
  "process_lines lang lines acc =
     (case process_lines lang lines [] of Inl e \<Rightarrow> Inl e | Inr rs \<Rightarrow> Inr (acc @ rs))"
proof (induction lines arbitrary: acc)
  case Nil
  show ?case by simp
next
  case (Cons line rest)
  show ?case
  proof (cases "process_line lang line")
    case (Inl e)
    then show ?thesis by simp
  next
    case (Inr o1)
    show ?thesis
    proof (cases o1)
      case None
      with Inr Cons.IH [of acc] show ?thesis by simp
    next
      case (Some r)
      with Inr Cons.IH [of "acc @ [r]"] Cons.IH [of "[r]"] show ?thesis
        by (simp split: sum.splits)
    qed
  qed
qed













section \<open>Properties of the aggregator\<close>

lemma run_language_contribution:
  "snd (run_language self p lang) = Inr rs \<Longrightarrow> contribution self p lang = rs"
  by (auto simp: run_language_def contribution_def split: option.splits sum.splits)

lemma run_language_failed:
  "snd (run_language self p lang) = Inl e \<Longrightarrow> contribution self p lang = []"
  by (auto simp: run_language_def contribution_def split: option.splits sum.splits)

lemma language_loop_results:
  "snd (language_loop self p langs results evs) =
     results @ concat (map (contribution self p) langs)"
proof (induction langs arbitrary: results evs)
  case Nil
  show ?case by simp
next
  case (Cons lang rest)
  obtain es out where r: "run_language self p lang = (es, out)"
    by (cases "run_language self p lang")
  show ?case
  proof (cases out)
    case (Inl e)
    with r have "contribution self p lang = []"
      using run_language_failed [of self p lang e] by simp
    with r Inl Cons.IH show ?thesis by simp
  next
    case (Inr rs)
    with r have "contribution self p lang = rs"
      using run_language_contribution [of self p lang rs] by simp
    with r Inr Cons.IH show ?thesis by simp
  qed
qed

lemma language_loop_events_mono:
  "set evs \<subseteq> set (fst (language_loop self p langs results evs))"
proof (induction langs arbitrary: results evs)
  case Nil
  show ?case by simp
next
  case (Cons lang rest)
  obtain es out where r: "run_language self p lang = (es, out)"
    by (cases "run_language self p lang")
  show ?case
  proof (cases out)
    case (Inl e)
    with r Cons.IH [of "evs @ es @ [Error_processing lang e]" results] show ?thesis by auto
  next
    case (Inr rs)
    with r Cons.IH [of "evs @ es" "results @ rs"] show ?thesis by auto
  qed
qed

lemma language_loop_logs_failure:
  assumes "lang \<in> set langs"
    and "map_of (ocr_models self) lang = Some model" and "model p = Inl e"
  shows "Error_processing lang e \<in> set (fst (language_loop self p langs results evs))"
  using assms(1)
proof (induction langs arbitrary: results evs)
  case Nil
  then show ?case by simp
next
  case (Cons l rest)
  obtain es out where r: "run_language self p l = (es, out)"
    by (cases "run_language self p l")
  show ?case
  proof (cases "l = lang")
    case True
    with assms(2,3) r have out: "out = Inl e"
      by (simp add: run_language_def)
    have "Error_processing lang e \<in> set (evs @ es @ [Error_processing lang e])" by simp
    with language_loop_events_mono [of "evs @ es @ [Error_processing lang e]" self p rest results]
    show ?thesis using r out True by auto
  next
    case False
    with Cons.prems have "lang \<in> set rest" by simp
    from Cons.IH [OF this] r show ?thesis
      by (cases out) simp_all
  qed
qed

lemma process_image_all:
  assumes "path_exists env p" and "is_valid_image env p"
  shows "process_image self env p None =
           (fst (language_loop self p (languages self) [] []),
            Inr (concat (map (contribution self p) (languages self))))"
  using assms language_loop_results [of self p "languages self" "[]" "[]"]
  by (cases "language_loop self p (languages self) [] []") (simp add: process_image_def)

text \<open>A processor that \<open>init\<close> returns has a registry whose keys are the configured codes.\<close>

lemma initialize_loop_keys:
  "initialize_loop paddle gpu langs models evs = (evs', Inr models') \<Longrightarrow>
   fst ` set models' = fst ` set models \<union> set langs \<and>
   (distinct (map fst models) \<longrightarrow> distinct (map fst models'))"
proof (induction langs arbitrary: models evs)
  case Nil
  then show ?case by simp
next
  case (Cons lang rest)
  then show ?case
    by (cases "paddle lang gpu") (auto simp: dom_update distinct_update dest!: Cons.IH)
qed

lemma init_registry:
  assumes "init paddle languages_arg gpu = (evs, Inr self)"
  shows "fst ` set (ocr_models self) = set (languages self) \<and>
         distinct (map fst (ocr_models self))"
proof -
  let ?langs = "case languages_arg of None \<Rightarrow> [''en'', ''hi''] | Some ls \<Rightarrow> ls"
  obtain es out where il: "initialize_loop paddle gpu ?langs [] [] = (es, out)"
    by (cases "initialize_loop paddle gpu ?langs [] []")
  with assms obtain models where out: "out = Inr models"
    and self: "self = \<lparr>languages = ?langs, use_gpu = gpu, ocr_models = models\<rparr>"
    by (cases out) (auto simp: init_def Let_def)
  from initialize_loop_keys [of paddle gpu ?langs "[]" "[]" es models] il out self
  show ?thesis by simp
qed

text \<open>The engines and records of the concrete inputs.\<close>

lemma example_env_sample:
  "path_exists example_env ''sample.jpg''" "is_valid_image example_env ''sample.jpg''"
  by (simp_all add: example_env_def is_valid_image_def)

lemma engine_hello_records:
  "process_ocr_results (Some [Some [Fields example_box (TextConf hello (FloatNum c))]]) lang =
     Inr [example_record lang c]"
  by (simp add: process_ocr_results_def process_line_def example_box_def example_record_def)

lemma texts_of_example: "texts_of [example_record lang c] = [hello]"
  by (simp add: texts_of_def strip_def py_isspace_def hello_def example_record_def)

text \<open>\<^verbatim>\<open>strip\<close> on a text with surrounding whitespace, and on one of whitespace only.\<close>

lemma strip_examples:
  "strip [32, 72, 105, 9, 10] = [72, 105]" "strip [32, 160, 12288] = []"
  by (simp_all add: strip_def py_isspace_def)

text \<open>
  Claim C1. On an existing valid image and with no language argument, \<open>process_image\<close>
  returns (it does not raise): its result is the concatenation, in the order of the
  configured languages, of what each language contributes, and a language whose engine
  raises contributes nothing and has its failure logged. \<open>extract_text_only\<close> and
  \<open>get_detailed_results\<close> return as well, on that same list.
\<close>

theorem per_language_failure_isolated:
  assumes "path_exists env p" and "is_valid_image env p"
  shows "\<exists>evs. process_image self env p None =
                 (evs, Inr (concat (map (contribution self p) (languages self)))) \<and>
               extract_text_only self env p None =
                 (evs, Inr (texts_of (concat (map (contribution self p) (languages self))))) \<and>
               get_detailed_results self env p None =
                 (evs, Inr (detailed env (concat (map (contribution self p) (languages self))))) \<and>
               (\<forall>lang \<in> set (languages self). \<forall>model e.
                  map_of (ocr_models self) lang = Some model \<and> model p = Inl e \<longrightarrow>
                  contribution self p lang = [] \<and> Error_processing lang e \<in> set evs)"
proof -
  let ?evs = "fst (language_loop self p (languages self) [] [])"
  have pi: "process_image self env p None =
              (?evs, Inr (concat (map (contribution self p) (languages self))))"
    using assms by (rule process_image_all)
  have skip: "\<And>lang model e. map_of (ocr_models self) lang = Some model \<Longrightarrow>
                 model p = Inl e \<Longrightarrow> contribution self p lang = []"
    by (simp add: contribution_def)
  show ?thesis
    apply (rule exI [of _ ?evs])
    apply (intro conjI)
       apply (rule pi)
      apply (simp add: extract_text_only_def pi)
     apply (simp add: get_detailed_results_def pi)
    using skip language_loop_logs_failure [of _ "languages self" self _ p _ "[]" "[]"]
    apply blast
    done
qed

theorem per_language_failure_isolated_witness:
  "path_exists example_env ''sample.jpg'' \<and> is_valid_image example_env ''sample.jpg'' \<and>
   engine_failing ''sample.jpg'' = Inl (External ''inference failed'') \<and>
   snd (process_image (example_processor engine_failing (engine_hello (22 / 25))) example_env
          ''sample.jpg'' None) = Inr [example_record ''hi'' (22 / 25)] \<and>
   snd (extract_text_only (example_processor engine_failing (engine_hello (22 / 25))) example_env
          ''sample.jpg'' None) = Inr [hello] \<and>
   Error_processing ''en'' (External ''inference failed'') \<in>
     set (fst (process_image (example_processor engine_failing (engine_hello (22 / 25)))
                 example_env ''sample.jpg'' None))"
proof -
  let ?P = "example_processor engine_failing (engine_hello (22 / 25))"
  have en: "map_of (ocr_models ?P) ''en'' = Some engine_failing"
    by (simp add: example_processor_def)
  have fails: "engine_failing ''sample.jpg'' = Inl (External ''inference failed'')"
    by (simp add: engine_failing_def)
  have c: "concat (map (contribution ?P ''sample.jpg'') (languages ?P)) =
             [example_record ''hi'' (22 / 25)]"
    by (simp add: contribution_def example_processor_def engine_failing_def engine_hello_def
          engine_hello_records)
  have mem: "''en'' \<in> set (languages ?P)"
    by (simp add: example_processor_def)
  from per_language_failure_isolated [OF example_env_sample, of ?P]
  obtain evs where
    pi: "process_image ?P example_env ''sample.jpg'' None =
           (evs, Inr (concat (map (contribution ?P ''sample.jpg'') (languages ?P))))"
    and et: "extract_text_only ?P example_env ''sample.jpg'' None =
           (evs, Inr (texts_of (concat (map (contribution ?P ''sample.jpg'') (languages ?P)))))"
    and lg: "\<forall>lang \<in> set (languages ?P). \<forall>model e.
               map_of (ocr_models ?P) lang = Some model \<and> model ''sample.jpg'' = Inl e \<longrightarrow>
               contribution ?P ''sample.jpg'' lang = [] \<and> Error_processing lang e \<in> set evs"
    by blast
  from lg mem en fails have "Error_processing ''en'' (External ''inference failed'') \<in> set evs"
    by blast
  with pi et c fails example_env_sample show ?thesis
    by (simp add: texts_of_example)
qed

text \<open>
  Claim C7. For a path that does not exist, the three operations fail with the
  file-not-found error and no event has occurred, so no engine was invoked; for a path
  that exists and is not a decodable image they fail with the invalid-image error, a
  different one, again with no event.
\<close>

theorem missing_or_invalid_image_fails_first:
  "(\<not> path_exists env p \<longrightarrow>
      process_image self env p language = ([], Inl (FileNotFoundError p)) \<and>
      extract_text_only self env p language = ([], Inl (FileNotFoundError p)) \<and>
      get_detailed_results self env p language = ([], Inl (FileNotFoundError p))) \<and>
   (path_exists env p \<and> \<not> is_valid_image env p \<longrightarrow>
      process_image self env p language = ([], Inl (ValueError_invalid_image p)) \<and>
      extract_text_only self env p language = ([], Inl (ValueError_invalid_image p)) \<and>
      get_detailed_results self env p language = ([], Inl (ValueError_invalid_image p))) \<and>
   FileNotFoundError p \<noteq> ValueError_invalid_image p"
  by (simp add: process_image_def extract_text_only_def get_detailed_results_def)

theorem missing_or_invalid_image_fails_first_witness:
  "\<not> path_exists example_env ''missing.jpg'' \<and>
   get_detailed_results (english_processor (engine_hello 1)) example_env ''missing.jpg'' None =
     ([], Inl (FileNotFoundError ''missing.jpg'')) \<and>
   path_exists example_env ''notes.txt'' \<and> \<not> is_valid_image example_env ''notes.txt'' \<and>
   extract_text_only (english_processor (engine_hello 1)) example_env ''notes.txt'' (Some ''en'') =
     ([], Inl (ValueError_invalid_image ''notes.txt''))"
proof -
  have missing: "\<not> path_exists example_env ''missing.jpg''"
    by (simp add: example_env_def)
  have invalid: "path_exists example_env ''notes.txt''" "\<not> is_valid_image example_env ''notes.txt''"
    by (simp_all add: example_env_def is_valid_image_def)
  from missing invalid
    missing_or_invalid_image_fails_first
      [of example_env "''missing.jpg''" "english_processor (engine_hello 1)" None]
    missing_or_invalid_image_fails_first
      [of example_env "''notes.txt''" "english_processor (engine_hello 1)" "Some ''en''"]
  show ?thesis by blast
qed

text \<open>
  Claim C8, as amended. On an existing valid image, a non-empty language argument that
  is not a key of the registry makes the three operations fail with the
  language-not-initialized error, whose payload is the list of the registry's keys; no
  event has occurred, so no engine was invoked. (The code tests \<^verbatim>\<open>if language:\<close>, so
  an empty string counts as no language argument.)
\<close>

theorem uninitialized_language_rejected:
  assumes "path_exists env p" and "is_valid_image env p"
    and "lang \<noteq> []" and "map_of (ocr_models self) lang = None"
  shows "process_image self env p (Some lang) =
           ([], Inl (ValueError_not_initialized lang (map fst (ocr_models self)))) \<and>
         extract_text_only self env p (Some lang) =
           ([], Inl (ValueError_not_initialized lang (map fst (ocr_models self)))) \<and>
         get_detailed_results self env p (Some lang) =
           ([], Inl (ValueError_not_initialized lang (map fst (ocr_models self))))"
  using assms by (simp add: process_image_def extract_text_only_def get_detailed_results_def)

theorem uninitialized_language_rejected_witness:
  "path_exists example_env ''sample.jpg'' \<and> is_valid_image example_env ''sample.jpg'' \<and>
   ''fr'' \<noteq> [] \<and>
   map_of (ocr_models (example_processor engine_failing (engine_hello 1))) ''fr'' = None \<and>
   process_image (example_processor engine_failing (engine_hello 1)) example_env ''sample.jpg''
     (Some ''fr'') = ([], Inl (ValueError_not_initialized ''fr'' [''en'', ''hi'']))"
proof -
  let ?P = "example_processor engine_failing (engine_hello 1)"
  have ne: "''fr'' \<noteq> []" by simp
  have key: "map_of (ocr_models ?P) ''fr'' = None"
    by (simp add: example_processor_def)
  have keys: "map fst (ocr_models ?P) = [''en'', ''hi'']"
    by (simp add: example_processor_def)
  from uninitialized_language_rejected [OF example_env_sample ne key] keys key example_env_sample
  show ?thesis by simp
qed

text \<open>
  The claim as the specification words it fails for the empty string: it is not a key of
  the registry, and the query runs every configured language instead of failing.
\<close>

theorem empty_language_counterexample:
  "map_of (ocr_models (english_processor (engine_hello 1))) [] = None \<and>
   path_exists example_env ''sample.jpg'' \<and> is_valid_image example_env ''sample.jpg'' \<and>
   process_image (english_processor (engine_hello 1)) example_env ''sample.jpg'' (Some []) =
     ([Info_processing ''en'', Engine_call ''en'' ''sample.jpg''], Inr [example_record ''en'' 1])"
  by (simp add: process_image_def run_language_def english_processor_def engine_hello_def
        engine_hello_records example_env_sample)

section \<open>Properties of the query operations\<close>

lemma detailed_results_key: "map_of (detailed env results) ''results'' = Some (PyRecords results)"
  by (simp add: detailed_def Let_def)







lemma english_hello_image:
  "process_image (english_processor (engine_hello c)) example_env ''sample.jpg'' None =
     ([Info_processing ''en'', Engine_call ''en'' ''sample.jpg''], Inr [example_record ''en'' c])"
  by (simp add: process_image_def run_language_def english_processor_def engine_hello_def
        engine_hello_records example_env_sample)


lemma english_blank_image:
  "process_image (english_processor engine_blank) example_env ''sample.jpg'' None =
     ([Info_processing ''en'', Engine_call ''en'' ''sample.jpg''], Inr [])"
  by (simp add: process_image_def run_language_def english_processor_def engine_blank_def
        process_ocr_results_def example_env_sample)

text \<open>
  Claim C2. On an existing valid image whose processing yields no record,
  \<open>get_detailed_results\<close> returns the canonical empty dictionary (five keys, in this
  order and with these values) and \<open>extract_text_only\<close> returns the empty list.
\<close>

theorem zero_records_canonical_empty:
  assumes "path_exists env p" and "is_valid_image env p"
    and "snd (process_image self env p language) = Inr []"
  shows "snd (get_detailed_results self env p language) =
           Inr [(''text_count'', PyInt 0),
                (''languages_detected'', PyStrList []),
                (''average_confidence'', PyFloat 0),
                (''results'', PyRecords []),
                (''summary'', PyStr ''No text detected'')] \<and>
         snd (extract_text_only self env p language) = Inr []"
  using assms(3)
  by (cases "process_image self env p language")
     (simp add: extract_text_only_def get_detailed_results_def detailed_def texts_of_def)

theorem zero_records_canonical_empty_witness:
  "path_exists example_env ''sample.jpg'' \<and> is_valid_image example_env ''sample.jpg'' \<and>
   snd (process_image (english_processor engine_blank) example_env ''sample.jpg'' None) = Inr [] \<and>
   snd (get_detailed_results (english_processor engine_blank) example_env ''sample.jpg'' None) =
     Inr [(''text_count'', PyInt 0),
          (''languages_detected'', PyStrList []),
          (''average_confidence'', PyFloat 0),
          (''results'', PyRecords []),
          (''summary'', PyStr ''No text detected'')] \<and>
   snd (extract_text_only (english_processor engine_blank) example_env ''sample.jpg'' None) = Inr []"
proof -
  have none: "snd (process_image (english_processor engine_blank) example_env ''sample.jpg'' None) =
                Inr []"
    by (simp add: english_blank_image)
  from zero_records_canonical_empty [OF example_env_sample none] none example_env_sample
  show ?thesis by simp
qed

text \<open>
  Claim C3. For every image path and language argument, \<open>extract_text_only\<close> and
  \<open>get_detailed_results\<close> cause the same events and fail with the same error, and when
  they return, the texts are the \<open>text\<close> fields of those records under the key
  \<^verbatim>\<open>results\<close> whose text is not empty after stripping whitespace, in the same order.
\<close>

theorem texts_are_projection_of_detailed_results:
  "fst (extract_text_only self env p language) = fst (get_detailed_results self env p language) \<and>
   snd (extract_text_only self env p language) =
     (case snd (get_detailed_results self env p language) of
        Inl e \<Rightarrow> Inl e
      | Inr d \<Rightarrow>
          Inr (map r_text (filter (\<lambda>r. strip (r_text r) \<noteq> []) (dict_results d))))"
  by (cases "process_image self env p language")
     (simp add: extract_text_only_def get_detailed_results_def dict_results_def
        detailed_results_key texts_of_def split: sum.splits)

theorem texts_are_projection_of_detailed_results_witness:
  "snd (get_detailed_results (english_processor (engine_hello 1)) example_env ''sample.jpg'' None) =
     Inr (detailed example_env [example_record ''en'' 1]) \<and>
   dict_results (detailed example_env [example_record ''en'' 1]) = [example_record ''en'' 1] \<and>
   strip (r_text (example_record ''en'' 1)) = hello \<and>
   snd (extract_text_only (english_processor (engine_hello 1)) example_env ''sample.jpg'' None) =
     Inr [hello]"
proof -
  let ?P = "english_processor (engine_hello 1)"
  have d: "snd (get_detailed_results ?P example_env ''sample.jpg'' None) =
             Inr (detailed example_env [example_record ''en'' 1])"
    by (simp add: get_detailed_results_def english_hello_image)
  have r: "dict_results (detailed example_env [example_record ''en'' 1]) =
             [example_record ''en'' 1]"
    by (simp add: dict_results_def detailed_results_key)
  have s: "strip (r_text (example_record ''en'' 1)) = hello"
    by (simp add: strip_def py_isspace_def hello_def example_record_def)
  have h: "hello \<noteq> []"
    by (simp add: hello_def)
  from texts_are_projection_of_detailed_results [of ?P example_env "''sample.jpg''" None]
  have "snd (extract_text_only ?P example_env ''sample.jpg'' None) = Inr [hello]"
    by (simp add: d r s h) (simp add: example_record_def)
  with d r s show ?thesis by simp
qed

text \<open>
  Claim C10. When \<open>process_image\<close> returns, the dictionary of \<open>get_detailed_results\<close> has
  the key \<^verbatim>\<open>results_by_language\<close> exactly when there is at least one record: its keys
  are five for no record and six otherwise.
\<close>

theorem results_by_language_key_iff_nonempty:
  assumes "snd (process_image self env p language) = Inr results"
  shows "\<exists>d. snd (get_detailed_results self env p language) = Inr d \<and>
             ((''results_by_language'' \<in> fst ` set d) = (results \<noteq> [])) \<and>
             map fst d =
               (if results = [] then
                  [''text_count'', ''languages_detected'', ''average_confidence'', ''results'',
                   ''summary'']
                else
                  [''text_count'', ''languages_detected'', ''average_confidence'', ''results'',
                   ''results_by_language'', ''summary''])"
  using assms
  by (cases "process_image self env p language")
     (simp add: get_detailed_results_def detailed_def Let_def)

theorem results_by_language_key_iff_nonempty_witness:
  "snd (process_image (english_processor (engine_hello 1)) example_env ''sample.jpg'' None) =
     Inr [example_record ''en'' 1] \<and>
   (\<exists>d. snd (get_detailed_results (english_processor (engine_hello 1)) example_env
               ''sample.jpg'' None) = Inr d \<and>
        ''results_by_language'' \<in> fst ` set d) \<and>
   snd (process_image (english_processor engine_blank) example_env ''sample.jpg'' None) = Inr [] \<and>
   (\<exists>d. snd (get_detailed_results (english_processor engine_blank) example_env
               ''sample.jpg'' None) = Inr d \<and>
        ''results_by_language'' \<notin> fst ` set d)"
proof -
  have one: "snd (process_image (english_processor (engine_hello 1)) example_env
                    ''sample.jpg'' None) = Inr [example_record ''en'' 1]"
    by (simp add: english_hello_image)
  have none: "snd (process_image (english_processor engine_blank) example_env
                     ''sample.jpg'' None) = Inr []"
    by (simp add: english_blank_image)
  from results_by_language_key_iff_nonempty [OF one]
  have a: "\<exists>d. snd (get_detailed_results (english_processor (engine_hello 1)) example_env
                       ''sample.jpg'' None) = Inr d \<and>
                ''results_by_language'' \<in> fst ` set d"
    by auto
  from results_by_language_key_iff_nonempty [OF none]
  have b: "\<exists>d. snd (get_detailed_results (english_processor engine_blank) example_env
                       ''sample.jpg'' None) = Inr d \<and>
                ''results_by_language'' \<notin> fst ` set d"
    by auto
  from one none a b show ?thesis by blast
qed




end
